theory Spec2Isabelle
  imports Main "HOL-Library.Sublist" "HOL-Library.AList" "HOL-Library.Multiset"
begin

chapter \<open>The JCL analysis engine: embedding of the source\<close>

section \<open>Python string primitives used by the engine\<close>

text \<open>
  Card text is modelled as \<^typ>\<open>string\<close>, one \<^typ>\<open>char\<close> per character of the
  Python \<open>str\<close>.  JCL decks are ASCII card images: case mapping is the ASCII one, and
  characters above code 255 are not represented.  Each primitive follows the CPython
  behaviour of the method named in its comment; \<open>s.startswith(p)\<close> is
  \<^term>\<open>prefix p s\<close>, \<open>s.endswith(p)\<close> is \<^term>\<open>suffix p s\<close> and \<open>s[:n]\<close> is
  \<^term>\<open>take n s\<close>.
\<close>

text \<open>\<open>sub in s\<close>: \<open>sub\<close> occurs in \<open>s\<close> as a contiguous block.\<close>

fun py_in :: "string \<Rightarrow> string \<Rightarrow> bool" where
  "py_in sub [] = (sub = [])"
| "py_in sub (c # cs) = (prefix sub (c # cs) \<or> py_in sub cs)"

text \<open>
  \<open>s.replace(old, new)\<close>: the occurrences of \<open>old\<close> are found from left to right,
  each search starting after the previous occurrence, and every one is replaced.
  With an empty \<open>old\<close> Python puts \<open>new\<close> before every character and at the end.
\<close>

function py_replace_ne :: "string \<Rightarrow> string \<Rightarrow> string \<Rightarrow> string" where
  "py_replace_ne old new [] = []"
| "py_replace_ne old new (c # cs) =
     (if old \<noteq> [] \<and> prefix old (c # cs)
      then new @ py_replace_ne old new (drop (length old) (c # cs))
      else c # py_replace_ne old new cs)"
  by pat_completeness auto
termination
  by (relation "measure (\<lambda>(old, new, s). length s)") (auto simp: neq_Nil_conv)

definition py_replace :: "string \<Rightarrow> string \<Rightarrow> string \<Rightarrow> string" where
  "py_replace old new s =
     (if old = [] then new @ concat (map (\<lambda>c. c # new) s) else py_replace_ne old new s)"

text \<open>
  \<open>str.isspace\<close> on one character, which is also the class \<open>\s\<close> of \<open>re\<close> on
  \<open>str\<close> patterns: tab to carriage return, the four separators \<open>0x1C\<close> to \<open>0x1F\<close>,
  the blank, \<open>0x85\<close> and \<open>0xA0\<close>.
\<close>

definition py_isspace :: "char \<Rightarrow> bool" where
  "py_isspace c =
     (let n = (of_char c :: nat)
      in (9 \<le> n \<and> n \<le> 13) \<or> (28 \<le> n \<and> n \<le> 32) \<or> n = 133 \<or> n = 160)"

text \<open>\<open>s.lstrip()\<close>, \<open>s.rstrip()\<close>, \<open>s.strip()\<close> and their forms with a set of characters.\<close>

definition py_lstrip :: "string \<Rightarrow> string" where
  "py_lstrip s = dropWhile py_isspace s"

definition py_rstrip :: "string \<Rightarrow> string" where
  "py_rstrip s = rev (dropWhile py_isspace (rev s))"

definition py_strip :: "string \<Rightarrow> string" where
  "py_strip s = py_rstrip (py_lstrip s)"

definition py_lstrip_chars :: "string \<Rightarrow> string \<Rightarrow> string" where
  "py_lstrip_chars cs s = dropWhile (\<lambda>c. c \<in> set cs) s"

definition py_rstrip_chars :: "string \<Rightarrow> string \<Rightarrow> string" where
  "py_rstrip_chars cs s = rev (dropWhile (\<lambda>c. c \<in> set cs) (rev s))"

definition py_strip_chars :: "string \<Rightarrow> string \<Rightarrow> string" where
  "py_strip_chars cs s = py_rstrip_chars cs (py_lstrip_chars cs s)"

text \<open>
  \<open>s.split(None, n)\<close>: at most \<open>n\<close> splits at runs of whitespace.  Leading whitespace
  is skipped before every piece; the last piece is the rest of the string, with its
  trailing whitespace.
\<close>

fun py_split_ws :: "nat \<Rightarrow> string \<Rightarrow> string list" where
  "py_split_ws 0 s =
     (let r = dropWhile py_isspace s in if r = [] then [] else [r])"
| "py_split_ws (Suc n) s =
     (let r = dropWhile py_isspace s
      in if r = [] then []
         else takeWhile (\<lambda>c. \<not> py_isspace c) r
              # py_split_ws n (dropWhile (\<lambda>c. \<not> py_isspace c) r))"

text \<open>\<open>sep.join(xs)\<close>.\<close>

definition py_join :: "string \<Rightarrow> string list \<Rightarrow> string" where
  "py_join sep xs = (case xs of [] \<Rightarrow> [] | x # r \<Rightarrow> x @ concat (map (\<lambda>y. sep @ y) r))"

text \<open>\<open>s.upper()\<close>, on ASCII letters.\<close>

definition py_upper_char :: "char \<Rightarrow> char" where
  "py_upper_char c =
     (let n = (of_char c :: nat) in if 97 \<le> n \<and> n \<le> 122 then char_of (n - 32) else c)"

definition py_upper :: "string \<Rightarrow> string" where
  "py_upper s = map py_upper_char s"

text \<open>
  \<open>s.split(sep, 1)\<close> for a non-empty \<open>sep\<close>: \<open>None\<close> stands for the one-element
  result \<open>[s]\<close> (no occurrence), \<open>Some (a, b)\<close> for \<open>[a, b]\<close>, split at the first
  occurrence.
\<close>

fun py_split1 :: "string \<Rightarrow> string \<Rightarrow> (string \<times> string) option" where
  "py_split1 sep [] = None"
| "py_split1 sep (c # cs) =
     (if prefix sep (c # cs) then Some ([], drop (length sep) (c # cs))
      else map_option (\<lambda>(a, b). (c # a, b)) (py_split1 sep cs))"

text \<open>\<open>s.split(d)\<close> for a separator of one character: every occurrence splits.\<close>

fun py_split_char :: "char \<Rightarrow> string \<Rightarrow> string list" where
  "py_split_char d [] = [[]]"
| "py_split_char d (c # cs) =
     (let r = py_split_char d cs in if c = d then [] # r else (c # hd r) # tl r)"

section \<open>The symbol table and \<open>JCLPreprocessor.apply_symbolics\<close>\<close>

text \<open>
  A symbol table is a Python \<open>dict\<close> from names to values: an association list with
  distinct keys, in insertion order.  An assignment \<open>d[k] = v\<close> is
  \<^const>\<open>AList.update\<close>: it overwrites the value of an existing key in place and
  appends a new key at the end.  \<open>d.update(other)\<close> assigns the items of \<open>other\<close>
  in their order.
\<close>

type_synonym symtab = "(string \<times> string) list"

definition dict_update_all :: "symtab \<Rightarrow> symtab \<Rightarrow> symtab" where
  "dict_update_all d other = foldl (\<lambda>acc p. AList.update (fst p) (snd p) acc) d other"

text \<open>
  \<open>sorted(self.symbol_table.keys(), key=len, reverse=True)\<close>.  CPython sorts stably;
  with \<open>reverse=True\<close> it reverses the list, sorts it stably in ascending order and
  reverses the result, so names of equal length keep their insertion order.  The loop
  body reads \<open>self.symbol_table[sym]\<close> for each key, so the model sorts the items of
  the dictionary by the length of their key.
\<close>

definition sorted_by_len_desc :: "symtab \<Rightarrow> symtab" where
  "sorted_by_len_desc tbl = rev (sort_key (\<lambda>p. length (fst p)) (rev tbl))"

text \<open>
  The loop body:
  \<^verbatim>\<open>stmt = stmt.replace(f"&{sym}..", f"{val}.").replace(f"&{sym}.", val).replace(f"&{sym}", val)\<close>
\<close>

definition subst_symbol :: "string \<Rightarrow> string \<times> string \<Rightarrow> string" where
  "subst_symbol stmt p =
     (case p of (name, val) \<Rightarrow>
        py_replace (''&'' @ name) val
          (py_replace (''&'' @ name @ ''.'') val
             (py_replace (''&'' @ name @ ''..'') (val @ ''.'') stmt)))"

definition apply_symbolics :: "symtab \<Rightarrow> string \<Rightarrow> string" where
  "apply_symbolics tbl stmt = foldl subst_symbol stmt (sorted_by_len_desc tbl)"

text \<open>
  A statement has a reference left for the table to resolve when \<open>&NAME\<close> occurs in
  it for some name of the table.
\<close>

definition no_symbolic_refs :: "symtab \<Rightarrow> string \<Rightarrow> bool" where
  "no_symbolic_refs tbl stmt = list_all (\<lambda>p. \<not> py_in (''&'' @ fst p) stmt) tbl"

section \<open>The card normalizer: \<open>clean_line\<close> and \<open>strip_jcl_comment\<close>\<close>

text \<open>
  \<open>clean_line\<close> removes the line terminator, keeps columns 1 to 72 and drops comment
  cards, \<open>/*\<close> cards and the bare \<open>//\<close> card (\<open>None\<close>).
\<close>

definition clean_line :: "string \<Rightarrow> string option" where
  "clean_line line0 =
     (let line1 = py_rstrip_chars [CHR 0x0D] (py_rstrip_chars [CHR 0x0A] line0);
          line = take 72 line1
      in if prefix ''//*'' line \<or> prefix ''/*'' line \<or> py_strip line = ''//'' then None
         else Some line)"

text \<open>
  The scan of the operand field in \<open>strip_jcl_comment\<close>: \<open>end_idx\<close> is the index of
  the first blank met while \<open>in_quotes\<close> is false, or the length of the field; every
  single quote toggles \<open>in_quotes\<close>.
\<close>

fun scan_end_idx :: "bool \<Rightarrow> string \<Rightarrow> nat" where
  "scan_end_idx in_quotes [] = 0"
| "scan_end_idx in_quotes (c # cs) =
     (if c = CHR 0x27 then Suc (scan_end_idx (\<not> in_quotes) cs)
      else if c = CHR '' '' \<and> \<not> in_quotes then 0
      else Suc (scan_end_idx in_quotes cs))"

definition strip_jcl_comment :: "string \<Rightarrow> bool \<Rightarrow> string" where
  "strip_jcl_comment line is_continuation =
     (if is_continuation then
        (let content = py_lstrip_chars ''/'' line;
             operands_and_comment = py_lstrip content;
             operands = take (scan_end_idx False operands_and_comment) operands_and_comment
         in py_strip operands)
      else
        (let parts = py_split_ws 2 line in
         if length parts < 3 then py_rstrip line
         else
           (let prefix = py_join '' '' (take 2 parts);
                operands_and_comment = parts ! 2;
                operands = take (scan_end_idx False operands_and_comment) operands_and_comment
            in if prefix \<noteq> [] then py_strip (prefix @ '' '' @ operands)
               else py_strip operands)))"

text \<open>
  The specification's reading of the scan, to compare with \<^const>\<open>scan_end_idx\<close>: a
  position is outside quotes when an even number of single quotes stands before it,
  and \<open>n\<close> is the comment boundary of \<open>s\<close> when it is the first blank outside quotes,
  or the length of \<open>s\<close> when there is none.
\<close>

definition quotes_before :: "string \<Rightarrow> nat \<Rightarrow> nat" where
  "quotes_before s i = count_list (take i s) (CHR 0x27)"

definition first_unquoted_space :: "string \<Rightarrow> nat \<Rightarrow> bool" where
  "first_unquoted_space s n \<longleftrightarrow>
     n \<le> length s
     \<and> (n < length s \<longrightarrow> s ! n = CHR '' '' \<and> even (quotes_before s n))
     \<and> (\<forall>i<n. \<not> (s ! i = CHR '' '' \<and> even (quotes_before s i)))"

section \<open>Regular expressions of the \<open>re\<close> module\<close>

text \<open>
  The patterns of the source use literals, character classes, sequence, alternation,
  optional parts, numbered groups, the end anchor \<open>$\<close> and repetition of a character
  class (greedy, or lazy for \<open>.*?\<close>).  They are written as values of \<open>rx\<close>, and
  \<open>rx_match\<close> is the backtracking matcher of \<open>re\<close>: it lists, in the order in which
  backtracking tries them, the ways the pattern matches at the front of the input,
  each as the input left over and the groups captured (most recent first).
\<close>

datatype rx =
    Eps
  | Cls "char \<Rightarrow> bool"
  | Seq rx rx
  | Alt rx rx
  | Grp nat rx
  | Rep "char \<Rightarrow> bool" nat "nat option" bool
  | Eol

type_synonym captures = "(nat \<times> string) list"

text \<open>
  \<open>Rep P lo hi greedy\<close> consumes between \<open>lo\<close> and \<open>hi\<close> characters of the class
  \<open>P\<close> (no upper bound for \<open>None\<close>): the longest run first when greedy, the shortest
  first when lazy.
\<close>

definition rep_counts :: "(char \<Rightarrow> bool) \<Rightarrow> nat \<Rightarrow> nat option \<Rightarrow> bool \<Rightarrow> string \<Rightarrow> nat list" where
  "rep_counts P lo hi greedy s =
     (let m = length (takeWhile P s);
          top = (case hi of None \<Rightarrow> m | Some h \<Rightarrow> min h m);
          counts = [lo..<Suc top]
      in if greedy then rev counts else counts)"

text \<open>
  Without the \<open>MULTILINE\<close> flag \<open>$\<close> matches at the end of the string and before a
  newline that ends the string.
\<close>

fun rx_match :: "rx \<Rightarrow> string \<Rightarrow> captures \<Rightarrow> (string \<times> captures) list" where
  "rx_match Eps s g = [(s, g)]"
| "rx_match (Cls P) s g = (case s of [] \<Rightarrow> [] | c # cs \<Rightarrow> if P c then [(cs, g)] else [])"
| "rx_match (Seq a b) s g = concat (map (\<lambda>r. rx_match b (fst r) (snd r)) (rx_match a s g))"
| "rx_match (Alt a b) s g = rx_match a s g @ rx_match b s g"
| "rx_match (Grp n a) s g =
     map (\<lambda>r. (fst r, (n, take (length s - length (fst r)) s) # snd r)) (rx_match a s g)"
| "rx_match (Rep P lo hi greedy) s g = map (\<lambda>k. (drop k s, g)) (rep_counts P lo hi greedy s)"
| "rx_match Eol s g = (if s = [] \<or> s = [CHR 0x0A] then [(s, g)] else [])"

text \<open>
  \<open>pattern.search(s)\<close>: the first way of matching at the leftmost position that has
  one.  The result is the start index of the match, the input left after it and the
  groups; \<open>m.group(n)\<close> is \<open>None\<close> for a group that took no part in the match.
\<close>

record rx_result =
  m_start :: nat
  m_rest :: string
  m_groups :: captures

fun rx_search_from :: "rx \<Rightarrow> nat \<Rightarrow> string \<Rightarrow> rx_result option" where
  "rx_search_from r i s =
     (case rx_match r s [] of
        x # _ \<Rightarrow> Some \<lparr>m_start = i, m_rest = fst x, m_groups = snd x\<rparr>
      | [] \<Rightarrow> (case s of [] \<Rightarrow> None | c # cs \<Rightarrow> rx_search_from r (Suc i) cs))"

definition re_search :: "rx \<Rightarrow> string \<Rightarrow> rx_result option" where
  "re_search r s = rx_search_from r 0 s"

definition m_group :: "rx_result \<Rightarrow> nat \<Rightarrow> string option" where
  "m_group m n = map_of (m_groups m) n"

text \<open>Pattern pieces.  Under \<open>re.IGNORECASE\<close> a letter matches in either case.\<close>

definition ci_char :: "char \<Rightarrow> char \<Rightarrow> bool" where
  "ci_char x c = (py_upper_char c = py_upper_char x)"

definition lit_ci :: "string \<Rightarrow> rx" where
  "lit_ci s = foldr (\<lambda>x r. Seq (Cls (ci_char x)) r) s Eps"

definition lit_cs :: "string \<Rightarrow> rx" where
  "lit_cs s = foldr (\<lambda>x r. Seq (Cls (\<lambda>c. c = x)) r) s Eps"

definition in_range :: "nat \<Rightarrow> nat \<Rightarrow> char \<Rightarrow> bool" where
  "in_range lo hi c = (lo \<le> (of_char c :: nat) \<and> (of_char c :: nat) \<le> hi)"

text \<open>\<open>[A-Z$#@]\<close> and \<open>[A-Z0-9$#@]\<close> under \<open>IGNORECASE\<close>.\<close>

definition cls_name_first :: "char \<Rightarrow> bool" where
  "cls_name_first c = (in_range 65 90 c \<or> in_range 97 122 c \<or> c \<in> set ''$#@'')"

definition cls_name_rest :: "char \<Rightarrow> bool" where
  "cls_name_rest c = (cls_name_first c \<or> in_range 48 57 c)"

text \<open>\<open>[^\s,]\<close>, and the dot, which matches every character but the newline.\<close>

definition cls_not_ws_comma :: "char \<Rightarrow> bool" where
  "cls_not_ws_comma c = (\<not> py_isspace c \<and> c \<noteq> CHR '','')"

definition cls_dot :: "char \<Rightarrow> bool" where
  "cls_dot c = (c \<noteq> CHR 0x0A)"

definition rx_opt :: "rx \<Rightarrow> rx" where
  "rx_opt r = Alt r Eps"

definition rx_seqs :: "rx list \<Rightarrow> rx" where
  "rx_seqs rs = foldr Seq rs Eps"

definition rx_alts :: "string list \<Rightarrow> rx" where
  "rx_alts ws = (case ws of [] \<Rightarrow> Cls (\<lambda>c. False) | w # r \<Rightarrow> foldl (\<lambda>a x. Alt a (lit_ci x)) (lit_ci w) r)"

text \<open>\<open>[A-Z$#@][A-Z0-9$#@]{0,7}\<close>, \<open>\s+\<close>, \<open>\s*\<close> and \<open>(\s+|$)\<close> as group \<open>n\<close>.\<close>

definition rx_jcl_name :: rx where
  "rx_jcl_name = Seq (Cls cls_name_first) (Rep cls_name_rest 0 (Some 7) True)"

definition rx_ws1 :: rx where
  "rx_ws1 = Rep py_isspace 1 None True"

definition rx_ws0 :: rx where
  "rx_ws0 = Rep py_isspace 0 None True"

definition rx_ws_or_end :: "nat \<Rightarrow> rx" where
  "rx_ws_or_end n = Grp n (Alt rx_ws1 Eol)"

text \<open>The patterns compiled in \<open>JCLPreprocessor.__init__\<close>, all with \<open>re.IGNORECASE\<close>.\<close>

definition re_job_admin :: rx where
  "re_job_admin = rx_seqs [lit_ci ''//'', rx_opt (Grp 1 rx_jcl_name), rx_ws1,
     Grp 2 (rx_alts [''JOB'', ''CNTL'', ''ENDCNTL'', ''EXPORT'', ''NOTIFY'', ''OUTPUT'',
                     ''SCHEDULE'', ''JCLLIB'', ''SET'']),
     rx_ws_or_end 3]"

definition re_cond :: rx where
  "re_cond = rx_seqs [lit_ci ''//'', rx_opt (Grp 1 rx_jcl_name), rx_ws0,
     Grp 2 (rx_alts [''IF'', ''THEN'', ''ELSE'', ''ENDIF'']), rx_ws_or_end 3]"

definition re_proc_start :: rx where
  "re_proc_start = rx_seqs [lit_ci ''//'', Grp 1 rx_jcl_name, rx_ws1, lit_ci ''PROC'',
     rx_ws_or_end 2]"

definition re_pend :: rx where
  "re_pend = rx_seqs [lit_ci ''//'', rx_ws1, lit_ci ''PEND'', rx_ws_or_end 1]"

definition re_include :: rx where
  "re_include = rx_seqs [lit_ci ''//'', rx_ws1, lit_ci ''INCLUDE'', rx_ws1,
     lit_ci ''MEMBER='', Grp 1 rx_jcl_name]"

definition re_exec :: rx where
  "re_exec = rx_seqs [lit_ci ''//'', rx_opt (Grp 1 rx_jcl_name), rx_ws1, lit_ci ''EXEC'',
     rx_ws1, rx_opt (Grp 2 (rx_alts [''PGM='', ''PROC=''])), Grp 3 rx_jcl_name]"

definition re_dd_instream :: rx where
  "re_dd_instream = rx_seqs [lit_ci ''//'', rx_opt (Grp 1 rx_jcl_name), rx_ws1, lit_ci ''DD'',
     rx_ws1, Grp 2 (rx_alts [''*'', ''DATA''])]"

text \<open>
  The patterns used in place: \<open>DLM=([^\s,]{2})\<close>, \<open>SET\s+([A-Z0-9$#@]{1,8})=([^,\s]+)\<close>
  and \<open>ORDER=\((.*?)\)\<close> with \<open>IGNORECASE\<close>; \<open>[,\s]\<close> and
  \<open>label=(.*) proc=(.*)\<close> without.
\<close>

definition re_dlm :: rx where
  "re_dlm = rx_seqs [lit_ci ''DLM='', Grp 1 (Rep cls_not_ws_comma 2 (Some 2) True)]"

definition re_set :: rx where
  "re_set = rx_seqs [lit_ci ''SET'', rx_ws1, Grp 1 (Rep cls_name_rest 1 (Some 8) True),
     lit_ci ''='', Grp 2 (Rep cls_not_ws_comma 1 None True)]"

definition re_order :: rx where
  "re_order = rx_seqs [lit_ci ''ORDER=('', Grp 1 (Rep cls_dot 0 None False), lit_ci '')'']"

definition re_comma_ws :: rx where
  "re_comma_ws = Cls (\<lambda>c. c = CHR '','' \<or> py_isspace c)"

definition re_proc_sentinel :: rx where
  "re_proc_sentinel = rx_seqs [lit_cs ''label='', Grp 1 (Rep cls_dot 0 None True),
     lit_cs '' proc='', Grp 2 (Rep cls_dot 0 None True)]"

section \<open>The preprocessor: state and helpers\<close>

text \<open>
  \<open>parse_params\<close> splits its argument at the commas outside single quotes (a quote
  toggles the state before the comma test and is kept in the piece), and binds
  \<open>NAME=VALUE\<close> pieces in order: the name stripped and upper-cased, the value stripped
  of whitespace and then of single quotes.
\<close>

fun split_params :: "bool \<Rightarrow> string \<Rightarrow> string \<Rightarrow> string list" where
  "split_params in_quotes current [] = [current]"
| "split_params in_quotes current (c # cs) =
     (let q = (if c = CHR 0x27 then \<not> in_quotes else in_quotes)
      in if c = CHR '','' \<and> \<not> q then current # split_params q [] cs
         else split_params q (current @ [c]) cs)"

definition bind_param :: "symtab \<Rightarrow> string \<Rightarrow> symtab" where
  "bind_param params p =
     (if py_in ''='' p then
        (case py_split1 ''='' p of
           Some (k, v) \<Rightarrow>
             AList.update (py_upper (py_strip k)) (py_strip_chars [CHR 0x27] (py_strip v)) params
         | None \<Rightarrow> params)
      else params)"

definition parse_params :: "string \<Rightarrow> symtab" where
  "parse_params param_string =
     (if param_string = [] then []
      else foldl bind_param [] (split_params False [] param_string))"

text \<open>
  The preprocessor object.  Symbol tables are dictionaries that the code copies,
  mutates in place and swaps, so they live in a store: \<open>heap\<close> lists the dictionary
  objects created so far, an address is a position in it, and \<open>symbol_table\<close> holds
  the address that \<open>self.symbol_table\<close> refers to.  \<open>procedure_map\<close> maps a name to
  the header statement and the raw body cards; \<open>lib_paths\<close> is replaced as a whole.
\<close>

record proc_data =
  header :: string
  body :: "string list"

record pstate =
  heap :: "symtab list"
  symbol_table :: nat
  procedure_map :: "(string \<times> proc_data) list"
  lib_paths :: "string list"

definition current_symbols :: "pstate \<Rightarrow> symtab" where
  "current_symbols st = heap st ! symbol_table st"

definition initial_pstate :: "string list \<Rightarrow> pstate" where
  "initial_pstate libs = \<lparr>heap = [[]], symbol_table = 0, procedure_map = [], lib_paths = libs\<rparr>"

text \<open>
  What the preprocessor reads from outside: \<open>SYSTEM\<close> and \<open>EXT\<close> of the
  configuration, \<open>os.path.exists\<close>, and \<open>open(path).readlines()\<close>, which is \<open>None\<close>
  when the file cannot be opened or read.
\<close>

record env =
  system_type :: string
  ext :: string
  fs_exists :: "string \<Rightarrow> bool"
  fs_lines :: "string \<Rightarrow> string list option"

text \<open>\<open>os.path.join(a, b)\<close> on POSIX.\<close>

definition os_path_join :: "string \<Rightarrow> string \<Rightarrow> string" where
  "os_path_join a b =
     (if prefix ''/'' b then b
      else if a = [] \<or> suffix ''/'' a then a @ b
      else a @ ''/'' @ b)"

fun resolve_in :: "env \<Rightarrow> string \<Rightarrow> string list \<Rightarrow> string option" where
  "resolve_in e member_name [] = None"
| "resolve_in e member_name (base # bases) =
     (if base = [] then resolve_in e member_name bases
      else
        (let path =
           (if system_type e = ''Z'' then base @ ''('' @ member_name @ '')''
            else os_path_join base
                   (if ext e \<noteq> [] then member_name @ ''.'' @ ext e else member_name))
         in if system_type e \<noteq> ''Z'' \<and> fs_exists e path then Some path
            else if system_type e = ''Z'' then Some path
            else resolve_in e member_name bases))"

definition resolve_path :: "env \<Rightarrow> pstate \<Rightarrow> string \<Rightarrow> string option" where
  "resolve_path e st member_name = resolve_in e member_name (lib_paths st)"

text \<open>
  \<open>m.group(n) or ""\<close>.  It is also used for the groups that take part in every
  match of their pattern, where \<open>m.group(n)\<close> is never \<open>None\<close>.
\<close>

definition group_or_empty :: "rx_result \<Rightarrow> nat \<Rightarrow> string" where
  "group_or_empty m n = (case m_group m n of Some x \<Rightarrow> x | None \<Rightarrow> [])"

text \<open>
  \<^verbatim>\<open>match = re.search(r"SET\s+([A-Z0-9$#@]{1,8})=([^,\s]+)", stmt, re.IGNORECASE)\<close>
  \<^verbatim>\<open>if match: self.symbol_table[match.group(1).upper()] = match.group(2).strip("'")\<close>
\<close>

definition set_binding :: "string \<Rightarrow> (string \<times> string) option" where
  "set_binding stmt =
     (case re_search re_set stmt of
        Some m \<Rightarrow> Some (py_upper (group_or_empty m 1),
                        py_strip_chars [CHR 0x27] (group_or_empty m 2))
      | None \<Rightarrow> None)"

definition update_symbols :: "pstate \<Rightarrow> string \<Rightarrow> pstate" where
  "update_symbols st stmt =
     (case set_binding stmt of
        Some (k, v) \<Rightarrow>
          st\<lparr>heap := (heap st)[symbol_table st := AList.update k v (heap st ! symbol_table st)]\<rparr>
      | None \<Rightarrow> st)"

definition update_lib_paths :: "pstate \<Rightarrow> string \<Rightarrow> pstate" where
  "update_lib_paths st stmt =
     (case re_search re_order stmt of
        Some m \<Rightarrow>
          st\<lparr>lib_paths :=
               map (\<lambda>p. py_strip_chars [CHR 0x22] (py_strip_chars [CHR 0x27] (py_strip p)))
                 (py_split_char (CHR '','') (group_or_empty m 1))
               @ lib_paths st\<rparr>
      | None \<Rightarrow> st)"

text \<open>
  The inner loop that captures an in-stream procedure: raw cards up to the first card
  that, cleaned, is non-empty and matches \<open>re_pend\<close>; that card is skipped.  The
  result is the body and the cards left.
\<close>

fun capture_proc_body :: "string list \<Rightarrow> string list \<times> string list" where
  "capture_proc_body [] = ([], [])"
| "capture_proc_body (p_line_raw # ls) =
     (if (case clean_line p_line_raw of
            Some c \<Rightarrow> c \<noteq> [] \<and> re_search re_pend c \<noteq> None
          | None \<Rightarrow> False)
      then ([], ls)
      else (let r = capture_proc_body ls in (p_line_raw # fst r, snd r)))"

text \<open>
  The delimiter of an in-stream DD:
  \<^verbatim>\<open>dlm = "/*"; dlm_match = re.search(r"DLM=([^\s,]{2})", stmt, re.IGNORECASE)\<close>
  \<^verbatim>\<open>if dlm_match: dlm = dlm_match.group(1).replace("'", "").replace('"', "")\<close>
\<close>

definition instream_dlm :: "string \<Rightarrow> string" where
  "instream_dlm stmt =
     (case re_search re_dlm stmt of
        Some m \<Rightarrow> py_replace [CHR 0x22] [] (py_replace [CHR 0x27] [] (group_or_empty m 1))
      | None \<Rightarrow> ''/*'')"

text \<open>
  The inner loop that captures the payload of an in-stream DD.  The result is the
  \<open>*PAYLOAD*\<close> statements emitted and the cards left for the main loop.
\<close>

fun capture_payload :: "string \<Rightarrow> string list \<Rightarrow> string list \<times> string list" where
  "capture_payload dlm [] = ([], [])"
| "capture_payload dlm (l # ls) =
     (let p_line_raw = py_rstrip l in
      if (dlm = ''/*'' \<and> (prefix ''//'' p_line_raw \<or> prefix ''/*'' p_line_raw))
         \<or> (dlm \<noteq> ''/*'' \<and> prefix dlm p_line_raw)
      then (if dlm \<noteq> ''/*'' \<and> prefix dlm p_line_raw then ([], ls) else ([], l # ls))
      else (let r = capture_payload dlm ls
            in ((''*PAYLOAD* '' @ take 72 p_line_raw) # fst r, snd r)))"

section \<open>The preprocessor driver: \<open>expand_procedure\<close>, \<open>preprocess_file\<close>, \<open>process_line_list\<close>\<close>

text \<open>
  The three methods call each other: \<open>process_line_list\<close> expands procedures and
  includes files, and both process a list of cards in turn.  A call returns its
  statements, or an exception passes through it (the only one the code can raise and
  not catch on the spot is the \<open>IndexError\<close> of \<open>exec_stmt.split("EXEC", 1)[1]\<close>).
  Both outcomes carry the state of the preprocessor at that moment, since
  \<open>preprocess_file\<close> catches the exception and goes on.
\<close>

datatype result = Returned "string list" pstate | Raised pstate

fun result_state :: "result \<Rightarrow> pstate" where
  "result_state (Returned out st) = st"
| "result_state (Raised st) = st"

text \<open>
  The nesting of these calls need not end (a procedure may call itself), so the
  methods take the processor of nested card lists as a parameter \<open>pll\<close>, and
  \<open>process_line_list\<close> below ties the knot with a bound on the nesting depth;
  \<open>None\<close> is a run deeper than the bound.
\<close>

type_synonym line_processor = "string list \<Rightarrow> pstate \<Rightarrow> result option"

definition preprocess_file ::
  "line_processor \<Rightarrow> env \<Rightarrow> string \<Rightarrow> pstate \<Rightarrow> (string list \<times> pstate) option" where
  "preprocess_file pll e file_path st =
     (if file_path = [] then Some ([], st)
      else
        (case fs_lines e file_path of
           None \<Rightarrow> Some ([], st)
         | Some lines \<Rightarrow>
             (case pll lines st of
                None \<Rightarrow> None
              | Some (Returned out st') \<Rightarrow> Some (out, st')
              | Some (Raised st') \<Rightarrow> Some ([], st'))))"

text \<open>
  \<open>expand_procedure\<close>.  \<open>copy.deepcopy\<close> creates a new dictionary object: a new
  address at the end of the store.  The two \<open>local_symbols.update\<close> calls write to
  that address; \<open>self.symbol_table\<close> is then set to it, the body is processed, and
  \<open>self.symbol_table\<close> is set back to the address saved in \<open>old_symbols\<close>.
\<close>

definition find_proc_data :: "env \<Rightarrow> pstate \<Rightarrow> string \<Rightarrow> proc_data option" where
  "find_proc_data e st proc_name =
     (case map_of (procedure_map st) (py_upper proc_name) of
        Some d \<Rightarrow> Some d
      | None \<Rightarrow>
          (case resolve_path e st proc_name of
             Some path \<Rightarrow>
               (if path \<noteq> [] then
                  (case fs_lines e path of
                     Some (l # ls) \<Rightarrow> Some \<lparr>header = l, body = ls\<rparr>
                   | _ \<Rightarrow> None)
                else None)
           | None \<Rightarrow> None))"

definition heap_update_all :: "nat \<Rightarrow> symtab \<Rightarrow> pstate \<Rightarrow> pstate" where
  "heap_update_all a other st = st\<lparr>heap := (heap st)[a := dict_update_all (heap st ! a) other]\<rparr>"

definition expand_procedure ::
  "line_processor \<Rightarrow> env \<Rightarrow> string \<Rightarrow> string \<Rightarrow> string \<Rightarrow> pstate \<Rightarrow> result option" where
  "expand_procedure pll e proc_name exec_stmt outer_label st =
     (case find_proc_data e st proc_name of
        None \<Rightarrow> Some (Returned [exec_stmt] st)
      | Some proc \<Rightarrow>
          (let local_symbols = length (heap st);
               st1 = st\<lparr>heap := heap st @ [heap st ! symbol_table st]\<rparr>;
               header_stmt = header proc;
               st2 = (if py_in '' PROC '' (py_upper header_stmt) then
                        (case py_split1 ''PROC'' (py_upper header_stmt) of
                           Some (_, proc_part) \<Rightarrow>
                             heap_update_all local_symbols (parse_params proc_part) st1
                         | None \<Rightarrow> st1)
                      else st1)
           in case py_split1 ''EXEC'' exec_stmt of
                None \<Rightarrow> Some (Raised st2)
              | Some (_, after_exec) \<Rightarrow>
                  (let exec_operands = py_strip after_exec;
                       st3 = (case re_search re_comma_ws exec_operands of
                                Some m \<Rightarrow>
                                  heap_update_all local_symbols
                                    (parse_params (py_strip (drop (m_start m + 1) exec_operands)))
                                    st2
                              | None \<Rightarrow> st2);
                       old_symbols = symbol_table st3;
                       st4 = st3\<lparr>symbol_table := local_symbols\<rparr>
                   in case pll (body proc) st4 of
                        None \<Rightarrow> None
                      | Some (Raised st5) \<Rightarrow> Some (Raised st5)
                      | Some (Returned expanded st5) \<Rightarrow>
                          Some (Returned
                                  ([''*PROC_START* label='' @ outer_label @ '' proc='' @ proc_name]
                                   @ expanded @ [''*PROC_END*''])
                                  (st5\<lparr>symbol_table := old_symbols\<rparr>)))))"

text \<open>
  What the main loop does with one complete statement \<open>stmt\<close>, after substitution:
  the statements emitted so far, the cards left and the state with which the loop
  continues, or the exception that ends it.
\<close>

datatype step_result = Continue "string list" "string list" pstate | Abort pstate

definition emit_statement :: "string \<Rightarrow> string list \<Rightarrow> string list \<Rightarrow> pstate \<Rightarrow> step_result" where
  "emit_statement stmt rest statements st =
     (if re_search re_dd_instream stmt \<noteq> None then
        (let r = capture_payload (instream_dlm stmt) rest
         in Continue (statements @ [stmt] @ fst r) (snd r) st)
      else Continue (statements @ [stmt]) rest st)"

definition is_proc_call :: "env \<Rightarrow> pstate \<Rightarrow> rx_result \<Rightarrow> bool" where
  "is_proc_call e st exec_match =
     (let is_explicit_pgm = py_in ''PGM='' (py_upper (group_or_empty exec_match 2));
          name = py_upper (group_or_empty exec_match 3)
      in \<not> is_explicit_pgm
         \<and> (name \<in> fst ` set (procedure_map st)
            \<or> (case resolve_path e st name of Some p \<Rightarrow> p \<noteq> [] | None \<Rightarrow> False)))"

definition process_statement ::
  "line_processor \<Rightarrow> env \<Rightarrow> string \<Rightarrow> string list \<Rightarrow> string list \<Rightarrow> pstate
     \<Rightarrow> step_result option" where
  "process_statement pll e stmt rest statements st =
     (case re_search re_proc_start stmt of
        Some proc_match \<Rightarrow>
          (let r = capture_proc_body rest
           in Some (Continue statements (snd r)
                (st\<lparr>procedure_map :=
                      AList.update (py_upper (group_or_empty proc_match 1))
                        \<lparr>header = stmt, body = fst r\<rparr> (procedure_map st)\<rparr>)))
      | None \<Rightarrow>
          if py_in ''JCLLIB '' (py_upper stmt)
          then Some (Continue statements rest (update_lib_paths st stmt))
          else if py_in '' SET '' (py_upper stmt) \<or> prefix ''// SET '' stmt
          then Some (Continue statements rest (update_symbols st stmt))
          else if re_search re_job_admin stmt \<noteq> None \<or> re_search re_cond stmt \<noteq> None
          then Some (Continue statements rest st)
          else
            (case re_search re_include stmt of
               Some include_match \<Rightarrow>
                 (case resolve_path e st (py_upper (group_or_empty include_match 1)) of
                    Some path \<Rightarrow>
                      (if path \<noteq> [] then
                         (case preprocess_file pll e path st of
                            None \<Rightarrow> None
                          | Some (out, st') \<Rightarrow> Some (Continue (statements @ out) rest st'))
                       else Some (Continue statements rest st))
                  | None \<Rightarrow> Some (Continue statements rest st))
             | None \<Rightarrow>
                 (case re_search re_exec stmt of
                    Some exec_match \<Rightarrow>
                      (if is_proc_call e st exec_match then
                         (case expand_procedure pll e (py_upper (group_or_empty exec_match 3)) stmt
                                 (group_or_empty exec_match 1) st of
                            None \<Rightarrow> None
                          | Some (Raised st') \<Rightarrow> Some (Abort st')
                          | Some (Returned out st') \<Rightarrow> Some (Continue (statements @ out) rest st'))
                       else Some (emit_statement stmt rest statements st))
                  | None \<Rightarrow> Some (emit_statement stmt rest statements st))))"

text \<open>The inner loops and a statement never hand back more cards than they were given.\<close>

lemma capture_proc_body_length: "length (snd (capture_proc_body ls)) \<le> length ls"
  by (induction ls) (auto simp: Let_def)

lemma capture_payload_length: "length (snd (capture_payload dlm ls)) \<le> length ls"
  by (induction ls) (auto simp: Let_def)

lemma emit_statement_rest:
  "emit_statement stmt rest statements st = Continue s r st' \<Longrightarrow> length r \<le> length rest"
  using capture_payload_length [of "instream_dlm stmt" rest]
  by (auto simp: emit_statement_def Let_def split: if_splits)

lemma process_statement_rest:
  "process_statement pll e stmt rest statements st = Some (Continue s r st')
     \<Longrightarrow> length r \<le> length rest"
  using capture_proc_body_length [of rest]
  by (auto simp: process_statement_def Let_def
           split: option.splits if_splits result.splits dest: emit_statement_rest)

text \<open>
  The main loop of \<open>process_line_list\<close>, over the cards from \<open>idx\<close> on: the
  statements emitted, the statement being assembled and the continuation flag are its
  variables.  A statement still being assembled when the cards run out is dropped.
\<close>

function process_loop ::
  "line_processor \<Rightarrow> env \<Rightarrow> string list \<Rightarrow> string list \<Rightarrow> string \<Rightarrow> bool \<Rightarrow> pstate
     \<Rightarrow> result option" where
  "process_loop pll e [] statements current_statement is_continuing st =
     Some (Returned statements st)"
| "process_loop pll e (line_raw # rest) statements current_statement is_continuing st =
     (case clean_line line_raw of
        None \<Rightarrow> process_loop pll e rest statements current_statement is_continuing st
      | Some line \<Rightarrow>
          (let cleaned_content = strip_jcl_comment line is_continuing;
               cur = current_statement @ cleaned_content
           in if suffix '','' cleaned_content
              then process_loop pll e rest statements cur True st
              else
                (case process_statement pll e (apply_symbolics (current_symbols st) cur)
                        rest statements st of
                   None \<Rightarrow> None
                 | Some (Abort st') \<Rightarrow> Some (Raised st')
                 | Some (Continue statements' rest' st') \<Rightarrow>
                     process_loop pll e rest' statements' [] False st')))"
  by pat_completeness auto
termination
  by (relation "measure (\<lambda>(pll, e, lines, statements, cur, cont, st). length lines)")
     (auto dest: process_statement_rest)

text \<open>
  \<open>process_line_list\<close> with nesting depth at most \<open>n\<close>, and the two other methods
  over it.
\<close>

primrec process_line_list :: "nat \<Rightarrow> env \<Rightarrow> line_processor" where
  "process_line_list 0 e = (\<lambda>lines st. None)"
| "process_line_list (Suc n) e =
     (\<lambda>lines st. process_loop (process_line_list n e) e lines [] [] False st)"

definition expand_procedure_depth ::
  "nat \<Rightarrow> env \<Rightarrow> string \<Rightarrow> string \<Rightarrow> string \<Rightarrow> pstate \<Rightarrow> result option" where
  "expand_procedure_depth n e proc_name exec_stmt outer_label st =
     expand_procedure (process_line_list n e) e proc_name exec_stmt outer_label st"

definition preprocess_file_depth ::
  "nat \<Rightarrow> env \<Rightarrow> string \<Rightarrow> pstate \<Rightarrow> (string list \<times> pstate) option" where
  "preprocess_file_depth n e file_path st = preprocess_file (process_line_list n e) e file_path st"

section \<open>The step assembler: \<open>JCLParserManager.process_results\<close>\<close>

text \<open>
  The values of the parameter mappings that the transformer builds: strings, lists,
  nested mappings (\<open>DCB\<close>) and \<open>True\<close> (\<open>DUMMY\<close>); \<open>PNone\<close> is Python's \<open>None\<close>,
  which \<open>dict.get\<close> returns for a missing key.
\<close>

datatype pyval =
    PNone
  | PBool bool
  | PStr string
  | PList "pyval list"
  | PDict "(string \<times> pyval) list"

type_synonym pdict = "(string \<times> pyval) list"

definition dict_get :: "pdict \<Rightarrow> string \<Rightarrow> pyval" where
  "dict_get d k = (case map_of d k of Some v \<Rightarrow> v | None \<Rightarrow> PNone)"

definition dict_has :: "pdict \<Rightarrow> string \<Rightarrow> bool" where
  "dict_has d k = (map_of d k \<noteq> None)"

fun truthy :: "pyval \<Rightarrow> bool" where
  "truthy PNone = False"
| "truthy (PBool b) = b"
| "truthy (PStr s) = (s \<noteq> [])"
| "truthy (PList xs) = (xs \<noteq> [])"
| "truthy (PDict d) = (d \<noteq> [])"

text \<open>
  The card that the transformer returns for one statement:
  \<open>{"type": "EXEC" | "DD", "label": \<dots>, "params": \<dots>}\<close>, the label \<open>None\<close> for an
  unnamed card.  The LALR parser is the Lark library's; the assembler is modelled over
  any function from statements to cards, \<open>None\<close> standing for a statement on which
  \<open>self.parser.parse\<close> raises.
\<close>

datatype card_type = EXEC | DD

record tree =
  t_type :: card_type
  t_label :: "string option"
  t_params :: pdict

type_synonym parser = "string \<Rightarrow> tree option"

text \<open>
  A DD of a step is its card, with the key \<open>payload\<close> once a payload line has been
  attached.  The step information is the EXEC card with the three keys that
  \<open>process_results\<close> adds.
\<close>

record dd_card =
  dd_label :: "string option"
  dd_params :: pdict
  dd_payload :: "string list option"

record step_info =
  label :: "string option"
  params :: pdict
  final_proc_name :: pyval
  final_step_name :: "string option"
  final_proc_step_name :: "string option"

record step =
  step_info :: step_info
  dds :: "dd_card list"

text \<open>A frame of \<open>proc_stack\<close>; the stack is a Python list, its top the last element.\<close>

record frame =
  f_label :: string
  f_proc :: string

text \<open>
  The manager object.  Every step object is appended to \<open>self.steps\<close> in the branch
  that creates it, so \<open>self.current_step\<close>, which refers to one of these objects, is
  the position of that object in \<open>steps\<close> (\<open>None\<close> before the first EXEC).
  \<open>diagnostics\<close> lists the statements reported with \<open>print("Parser Error: \<dots>")\<close>.
\<close>

record manager =
  steps :: "step list"
  current_step :: "nat option"
  diagnostics :: "string list"

definition new_manager :: manager where
  "new_manager = \<lparr>steps = [], current_step = None, diagnostics = []\<rparr>"

definition add_payload :: "manager \<Rightarrow> string \<Rightarrow> manager" where
  "add_payload mgr stmt =
     (if steps mgr \<noteq> [] \<and> dds (last (steps mgr)) \<noteq> [] then
        (let s = last (steps mgr);
             last_dd = last (dds s);
             old = (case dd_payload last_dd of None \<Rightarrow> [] | Some p \<Rightarrow> p);
             last_dd' = last_dd\<lparr>dd_payload := Some (old @ [py_replace ''*PAYLOAD* '' [] stmt])\<rparr>
         in mgr\<lparr>steps := butlast (steps mgr) @ [s\<lparr>dds := butlast (dds s) @ [last_dd']\<rparr>]\<rparr>)
      else mgr)"

definition exec_step :: "frame list \<Rightarrow> tree \<Rightarrow> step" where
  "exec_step proc_stack t =
     \<lparr>step_info =
        (if proc_stack \<noteq> [] then
           (let outer = last proc_stack
            in \<lparr>label = t_label t, params = t_params t,
                final_proc_name = PStr (f_proc outer),
                final_step_name = Some (f_label outer),
                final_proc_step_name = t_label t\<rparr>)
         else
           \<lparr>label = t_label t, params = t_params t,
            final_proc_name = dict_get (t_params t) ''PROC'',
            final_step_name = t_label t,
            final_proc_step_name = None\<rparr>),
      dds = []\<rparr>"

definition append_dd :: "manager \<Rightarrow> tree \<Rightarrow> manager" where
  "append_dd mgr t =
     (case current_step mgr of
        Some i \<Rightarrow>
          mgr\<lparr>steps := (steps mgr)[i := (steps mgr ! i)\<lparr>dds := dds (steps mgr ! i)
                   @ [\<lparr>dd_label = t_label t, dd_params = t_params t, dd_payload = None\<rparr>]\<rparr>]\<rparr>
      | None \<Rightarrow> mgr)"

text \<open>One iteration of the loop of \<open>process_results\<close>, on the manager and \<open>proc_stack\<close>.\<close>

definition process_stmt :: "parser \<Rightarrow> manager \<times> frame list \<Rightarrow> string \<Rightarrow> manager \<times> frame list" where
  "process_stmt parse ms stmt =
     (case ms of (mgr, proc_stack) \<Rightarrow>
        if prefix ''*PROC_START*'' stmt then
          (case re_search re_proc_sentinel stmt of
             Some m \<Rightarrow>
               (mgr, proc_stack @ [\<lparr>f_label = group_or_empty m 1, f_proc = group_or_empty m 2\<rparr>])
           | None \<Rightarrow> (mgr, proc_stack))
        else if prefix ''*PROC_END*'' stmt then
          (mgr, if proc_stack \<noteq> [] then butlast proc_stack else proc_stack)
        else if prefix ''*PAYLOAD*'' stmt then (add_payload mgr stmt, proc_stack)
        else
          (case parse stmt of
             None \<Rightarrow> (mgr\<lparr>diagnostics := diagnostics mgr @ [stmt]\<rparr>, proc_stack)
           | Some t \<Rightarrow>
               (case t_type t of
                  EXEC \<Rightarrow>
                    (mgr\<lparr>current_step := Some (length (steps mgr)),
                         steps := steps mgr @ [exec_step proc_stack t]\<rparr>, proc_stack)
                | DD \<Rightarrow> (append_dd mgr t, proc_stack))))"

definition run_assembler :: "parser \<Rightarrow> manager \<times> frame list \<Rightarrow> string list \<Rightarrow> manager \<times> frame list" where
  "run_assembler parse ms results_list = foldl (process_stmt parse) ms results_list"

definition process_results :: "parser \<Rightarrow> manager \<Rightarrow> string list \<Rightarrow> manager" where
  "process_results parse mgr results_list = fst (run_assembler parse (mgr, []) results_list)"

text \<open>The statements that the assembler hands to the parser, and those that start a step.\<close>

definition is_sentinel :: "string \<Rightarrow> bool" where
  "is_sentinel stmt \<longleftrightarrow>
     prefix ''*PROC_START*'' stmt \<or> prefix ''*PROC_END*'' stmt \<or> prefix ''*PAYLOAD*'' stmt"

definition parses_as :: "parser \<Rightarrow> card_type \<Rightarrow> string \<Rightarrow> bool" where
  "parses_as parse ty stmt \<longleftrightarrow>
     \<not> is_sentinel stmt \<and> (case parse stmt of Some t \<Rightarrow> t_type t = ty | None \<Rightarrow> False)"

text \<open>
  The cards that \<open>JCL_GRAMMAR\<close> with \<open>JCLTransformer\<close> gives for the three statements
  used in the examples below (\<open>exec_statement\<close> with \<open>pgm_param\<close>, \<open>dd_statement\<close> and
  \<open>unnamed_dd\<close> with \<open>dsn_param\<close>); the examples parse no other statement.
\<close>

definition example_parser :: parser where
  "example_parser stmt =
     (if stmt = ''//S1 EXEC PGM=X''
      then Some \<lparr>t_type = EXEC, t_label = Some ''S1'', t_params = [(''PGM'', PStr ''X'')]\<rparr>
      else if stmt = ''//IN DD DSN=A''
      then Some \<lparr>t_type = DD, t_label = Some ''IN'', t_params = [(''DSN'', PStr ''A'')]\<rparr>
      else if stmt = ''// DD DSN=B''
      then Some \<lparr>t_type = DD, t_label = None, t_params = [(''DSN'', PStr ''B'')]\<rparr>
      else None)"

section \<open>The persistence adapter: \<open>DatabaseManager.insert_project_data\<close>\<close>

text \<open>
  The database is outside the model: \<open>insert_project_data\<close> is modelled by the
  parameter tuples of the \<open>INSERT\<close> statements it executes, in order, given the
  project id and the \<open>MAX(step_id)\<close> that its two queries return.  An exception of
  the Python code (a value of the wrong type in a parameter mapping) ends the call
  before the commit.
\<close>

datatype py_error = TypeError | KeyError

record step_row =
  sr_project_id :: int
  sr_step_id :: int
  sr_relative_step :: string
  sr_step_name :: "string option"
  sr_proc_step_name :: "string option"
  sr_program_name :: pyval
  sr_proc_name :: pyval
  sr_parameters :: pyval
  sr_cond_logic :: pyval

record dd_row =
  dr_project_id :: int
  dr_step_id :: int
  dr_ds_id :: int
  dr_dd_name :: "string option"
  dr_allocation_offset :: int
  dr_dsn :: pyval
  dr_disp_status :: pyval
  dr_disp_normal_term :: pyval
  dr_disp_abnormal_term :: pyval
  dr_unit :: pyval
  dr_vol_ser :: pyval
  dr_is_dummy :: bool
  dr_instream_ref :: string
  dr_lrecl :: pyval
  dr_blksize :: pyval
  dr_recfm :: pyval
  dr_dcb_attributes :: pdict

datatype sql_insert = InsertStep step_row | InsertDD dd_row

text \<open>\<open>f"X{n:07d}"\<close>: the decimal digits of \<open>n\<close>, padded with zeros to seven.\<close>

fun dec_digits :: "nat \<Rightarrow> string" where
  "dec_digits n =
     (if n < 10 then [char_of (48 + n)]
      else dec_digits (n div 10) @ [char_of (48 + n mod 10)])"

definition rel_step_str :: "nat \<Rightarrow> string" where
  "rel_step_str n = ''X'' @ replicate (7 - length (dec_digits n)) (CHR ''0'') @ dec_digits n"

text \<open>
  The surrogate chain:
  \<^verbatim>\<open>dsn = dd_params.get('DSN')\<close>
  \<^verbatim>\<open>if dd_params.get('DUMMY'): dsn = "(dummy)"\<close>
  \<^verbatim>\<open>elif dd_params.get('INSTREAM'): dsn = "(input stream)"\<close>
  \<^verbatim>\<open>elif 'SYSOUT' in dd_params: dsn = "(output stream)"\<close>
  \<^verbatim>\<open>elif not dsn: dsn = "(work_ds)"\<close>
\<close>

definition dd_dsn :: "pdict \<Rightarrow> pyval" where
  "dd_dsn ps =
     (let dsn = dict_get ps ''DSN''
      in if truthy (dict_get ps ''DUMMY'') then PStr ''(dummy)''
         else if truthy (dict_get ps ''INSTREAM'') then PStr ''(input stream)''
         else if dict_has ps ''SYSOUT'' then PStr ''(output stream)''
         else if \<not> truthy dsn then PStr ''(work_ds)''
         else dsn)"

text \<open>
  \<open>disp = dd_params.get('DISP', [])\<close> and the three \<open>disp[i] if len(disp) > i else None\<close>.
  The transformer makes \<open>DISP\<close> a list; \<open>len\<close> and indexing also work on a string
  and on an empty mapping, and raise on the other values.
\<close>

definition disp_items :: "pdict \<Rightarrow> py_error + pyval list" where
  "disp_items ps =
     (case map_of ps ''DISP'' of
        None \<Rightarrow> Inr []
      | Some (PList xs) \<Rightarrow> Inr xs
      | Some (PStr s) \<Rightarrow> Inr (map (\<lambda>c. PStr [c]) s)
      | Some (PDict d) \<Rightarrow> (if d = [] then Inr [] else Inl KeyError)
      | Some _ \<Rightarrow> Inl TypeError)"

definition item_or_none :: "pyval list \<Rightarrow> nat \<Rightarrow> pyval" where
  "item_or_none xs i = (if i < length xs then xs ! i else PNone)"

definition py_or :: "pyval \<Rightarrow> pyval \<Rightarrow> pyval" where
  "py_or a b = (if truthy a then a else b)"

definition make_dd_row ::
  "int \<Rightarrow> int \<Rightarrow> int \<Rightarrow> string option \<Rightarrow> int \<Rightarrow> dd_card \<Rightarrow> py_error + dd_row" where
  "make_dd_row project_id step_id ds_id last_dd_name allocation_offset dd =
     (let ps = dd_params dd in
      case disp_items ps of
        Inl err \<Rightarrow> Inl err
      | Inr disp \<Rightarrow>
          (let dcb_val = dict_get ps ''DCB'';
               dcb = (case dcb_val of PDict d \<Rightarrow> Some d | _ \<Rightarrow> None);
               from_dcb = (\<lambda>v k. case dcb of Some d \<Rightarrow> py_or v (dict_get d k) | None \<Rightarrow> v);
               extra_dcb = (case dcb of
                              Some d \<Rightarrow> filter (\<lambda>p. fst p \<notin> {''LRECL'', ''RECFM'', ''BLKSIZE''}) d
                            | None \<Rightarrow> [])
           in Inr \<lparr>dr_project_id = project_id, dr_step_id = step_id, dr_ds_id = ds_id,
                   dr_dd_name = last_dd_name, dr_allocation_offset = allocation_offset,
                   dr_dsn = dd_dsn ps,
                   dr_disp_status = item_or_none disp 0,
                   dr_disp_normal_term = item_or_none disp 1,
                   dr_disp_abnormal_term = item_or_none disp 2,
                   dr_unit = dict_get ps ''UNIT'',
                   dr_vol_ser = dict_get ps ''VOL'',
                   dr_is_dummy = truthy (dict_get ps ''DUMMY''),
                   dr_instream_ref =
                     py_join [CHR 0x0A] (case dd_payload dd of Some p \<Rightarrow> p | None \<Rightarrow> []),
                   dr_lrecl = from_dcb (dict_get ps ''LRECL'') ''LRECL'',
                   dr_blksize = from_dcb (dict_get ps ''BLKSIZE'') ''BLKSIZE'',
                   dr_recfm = from_dcb (dict_get ps ''RECFM'') ''RECFM'',
                   dr_dcb_attributes = extra_dcb\<rparr>))"

text \<open>\<open>if current_label:\<close> holds for a label that is neither \<open>None\<close> nor empty.\<close>

definition is_labeled :: "dd_card \<Rightarrow> bool" where
  "is_labeled dd = (case dd_label dd of Some l \<Rightarrow> l \<noteq> [] | None \<Rightarrow> False)"

text \<open>
  The loop over \<open>step['dds']\<close>, with its variables \<open>last_dd_name\<close>,
  \<open>allocation_offset\<close> and \<open>ds_id_counter\<close>.
\<close>

fun dd_loop ::
  "int \<Rightarrow> int \<Rightarrow> string option \<Rightarrow> int \<Rightarrow> int \<Rightarrow> dd_card list \<Rightarrow> py_error + dd_row list" where
  "dd_loop project_id step_id last_dd_name allocation_offset ds_id_counter [] = Inr []"
| "dd_loop project_id step_id last_dd_name allocation_offset ds_id_counter (dd # rest) =
     (let ds_id = ds_id_counter + 1;
          name = (if is_labeled dd then dd_label dd else last_dd_name);
          offset = (if is_labeled dd then 1 else allocation_offset + 1)
      in case make_dd_row project_id step_id ds_id name offset dd of
           Inl err \<Rightarrow> Inl err
         | Inr row \<Rightarrow>
             (case dd_loop project_id step_id name offset ds_id rest of
                Inl err \<Rightarrow> Inl err
              | Inr rows \<Rightarrow> Inr (row # rows)))"

definition step_dd_rows :: "int \<Rightarrow> int \<Rightarrow> dd_card list \<Rightarrow> py_error + dd_row list" where
  "step_dd_rows project_id step_id ds = dd_loop project_id step_id None 0 0 ds"

definition make_step_row :: "int \<Rightarrow> int \<Rightarrow> nat \<Rightarrow> step_info \<Rightarrow> step_row" where
  "make_step_row project_id step_id relative_step_counter info =
     \<lparr>sr_project_id = project_id, sr_step_id = step_id,
      sr_relative_step = rel_step_str relative_step_counter,
      sr_step_name = final_step_name info,
      sr_proc_step_name = final_proc_step_name info,
      sr_program_name = dict_get (params info) ''PGM'',
      sr_proc_name = final_proc_name info,
      sr_parameters = dict_get (params info) ''PARM'',
      sr_cond_logic = dict_get (params info) ''COND''\<rparr>"

fun step_loop :: "int \<Rightarrow> int \<Rightarrow> nat \<Rightarrow> step list \<Rightarrow> py_error + sql_insert list" where
  "step_loop project_id step_id_counter relative_step_counter [] = Inr []"
| "step_loop project_id step_id_counter relative_step_counter (s # rest) =
     (let step_id = step_id_counter + 1;
          rel = Suc relative_step_counter
      in case step_dd_rows project_id step_id (dds s) of
           Inl err \<Rightarrow> Inl err
         | Inr rows \<Rightarrow>
             (case step_loop project_id step_id rel rest of
                Inl err \<Rightarrow> Inl err
              | Inr later \<Rightarrow>
                  Inr (InsertStep (make_step_row project_id step_id rel (step_info s))
                       # map InsertDD rows @ later)))"

definition insert_project_data :: "int \<Rightarrow> int \<Rightarrow> step list \<Rightarrow> py_error + sql_insert list" where
  "insert_project_data project_id max_step_id structured_data =
     step_loop project_id max_step_id 0 structured_data"

chapter \<open>Verification of the claims\<close>

section \<open>Facts about the string primitives\<close>

lemma py_in_prefix_mono: "py_in (p @ q) s \<Longrightarrow> py_in p s"
proof (induction s)
  case Nil
  then show ?case by simp
next
  case (Cons c cs)
  then show ?case by (auto dest: append_prefixD)
qed

lemma py_replace_ne_absent: "\<not> py_in old s \<Longrightarrow> py_replace_ne old new s = s"
  by (induction s) auto

lemma py_replace_absent: "old \<noteq> [] \<Longrightarrow> \<not> py_in old s \<Longrightarrow> py_replace old new s = s"
  by (simp add: py_replace_def py_replace_ne_absent)

lemma subst_symbol_absent:
  assumes "\<not> py_in (''&'' @ name) s"
  shows "subst_symbol s (name, val) = s"
proof -
  have a: "\<not> py_in ((''&'' @ name) @ ''.'') s" "\<not> py_in ((''&'' @ name) @ ''..'') s"
    using assms py_in_prefix_mono by blast+
  have "py_replace (''&'' @ name @ ''..'') (val @ ''.'') s = s"
    using a(2) by (intro py_replace_absent) simp_all
  moreover have "py_replace (''&'' @ name @ ''.'') val s = s"
    using a(1) by (intro py_replace_absent) simp_all
  moreover have "py_replace (''&'' @ name) val s = s"
    using assms by (intro py_replace_absent) simp_all
  ultimately show ?thesis by (simp add: subst_symbol_def)
qed

lemma foldl_subst_symbol_absent:
  "\<forall>p \<in> set ps. \<not> py_in (''&'' @ fst p) s \<Longrightarrow> foldl subst_symbol s ps = s"
proof (induction ps)
  case Nil
  then show ?case by simp
next
  case (Cons p ps)
  obtain name val where p: "p = (name, val)" by (cases p)
  from Cons.prems p have "subst_symbol s p = s"
    by (simp add: subst_symbol_absent)
  with Cons show ?case by simp
qed

lemma apply_symbolics_no_refs: "no_symbolic_refs tbl s \<Longrightarrow> apply_symbolics tbl s = s"
  unfolding apply_symbolics_def no_symbolic_refs_def sorted_by_len_desc_def
  by (rule foldl_subst_symbol_absent) (simp add: list_all_iff)

lemma sorted_by_len_desc_sorted:
  "sorted_wrt (\<lambda>a b. length (fst b) \<le> length (fst a)) (sorted_by_len_desc tbl)"
proof -
  have "sorted (map (\<lambda>p. length (fst p)) (sort_key (\<lambda>p. length (fst p)) (rev tbl)))"
    by (rule sorted_sort_key)
  then have "sorted_wrt (\<lambda>a b. length (fst a) \<le> length (fst b))
      (sort_key (\<lambda>p. length (fst p)) (rev tbl))"
    by (simp add: sorted_wrt_map)
  then show ?thesis
    unfolding sorted_by_len_desc_def by (simp add: sorted_wrt_rev)
qed

lemma sorted_by_len_desc_mset: "mset (sorted_by_len_desc tbl) = mset tbl"
  by (simp add: sorted_by_len_desc_def)

section \<open>Symbol substitution\<close>

text \<open>
  C1.  \<open>apply_symbolics\<close> runs over the entries of the table ordered by descending
  name length (a rearrangement of the table in which no name is followed by a longer
  one), and for each entry replaces every \<open>&NAME..\<close> by \<open>VALUE.\<close>, then every
  \<open>&NAME.\<close> by \<open>VALUE\<close>, then every \<open>&NAME\<close> by \<open>VALUE\<close>.  With the table
  \<open>{A=1, ABC=9}\<close> (in either insertion order) \<open>&ABC &A\<close> becomes \<open>9 1\<close>,
  \<open>&A..BC\<close> becomes \<open>1.BC\<close> and \<open>&ABC.X\<close> becomes \<open>9X\<close>.
\<close>

theorem apply_symbolics_longest_first:
  "apply_symbolics tbl stmt =
     foldl (\<lambda>s (name, val).
              py_replace (''&'' @ name) val
                (py_replace (''&'' @ name @ ''.'') val
                   (py_replace (''&'' @ name @ ''..'') (val @ ''.'') s)))
       stmt (sorted_by_len_desc tbl)
   \<and> mset (sorted_by_len_desc tbl) = mset tbl
   \<and> sorted_wrt (\<lambda>a b. length (fst b) \<le> length (fst a)) (sorted_by_len_desc tbl)
   \<and> apply_symbolics [(''A'', ''1''), (''ABC'', ''9'')] ''&ABC &A'' = ''9 1''
   \<and> apply_symbolics [(''A'', ''1''), (''ABC'', ''9'')] ''&A..BC'' = ''1.BC''
   \<and> apply_symbolics [(''A'', ''1''), (''ABC'', ''9'')] ''&ABC.X'' = ''9X''
   \<and> apply_symbolics [(''ABC'', ''9''), (''A'', ''1'')] ''&ABC &A'' = ''9 1''
   \<and> apply_symbolics [(''ABC'', ''9''), (''A'', ''1'')] ''&A..BC'' = ''1.BC''
   \<and> apply_symbolics [(''ABC'', ''9''), (''A'', ''1'')] ''&ABC.X'' = ''9X''"
proof -
  have "subst_symbol = (\<lambda>s (name, val).
              py_replace (''&'' @ name) val
                (py_replace (''&'' @ name @ ''.'') val
                   (py_replace (''&'' @ name @ ''..'') (val @ ''.'') s)))"
    by (intro ext) (simp add: subst_symbol_def split: prod.splits)
  then have 1: "apply_symbolics tbl stmt =
     foldl (\<lambda>s (name, val).
              py_replace (''&'' @ name) val
                (py_replace (''&'' @ name @ ''.'') val
                   (py_replace (''&'' @ name @ ''..'') (val @ ''.'') s)))
       stmt (sorted_by_len_desc tbl)"
    by (simp add: apply_symbolics_def)
  have 2: "mset (sorted_by_len_desc tbl) = mset tbl"
    by (rule sorted_by_len_desc_mset)
  have 3: "sorted_wrt (\<lambda>a b. length (fst b) \<le> length (fst a)) (sorted_by_len_desc tbl)"
    by (rule sorted_by_len_desc_sorted)
  have 4: "apply_symbolics [(''A'', ''1''), (''ABC'', ''9'')] ''&ABC &A'' = ''9 1''"
    by (simp add: apply_symbolics_def sorted_by_len_desc_def subst_symbol_def py_replace_def)
  have 5: "apply_symbolics [(''A'', ''1''), (''ABC'', ''9'')] ''&A..BC'' = ''1.BC''"
    by (simp add: apply_symbolics_def sorted_by_len_desc_def subst_symbol_def py_replace_def)
  have 6: "apply_symbolics [(''A'', ''1''), (''ABC'', ''9'')] ''&ABC.X'' = ''9X''"
    by (simp add: apply_symbolics_def sorted_by_len_desc_def subst_symbol_def py_replace_def)
  have 7: "apply_symbolics [(''ABC'', ''9''), (''A'', ''1'')] ''&ABC &A'' = ''9 1''"
    by (simp add: apply_symbolics_def sorted_by_len_desc_def subst_symbol_def py_replace_def)
  have 8: "apply_symbolics [(''ABC'', ''9''), (''A'', ''1'')] ''&A..BC'' = ''1.BC''"
    by (simp add: apply_symbolics_def sorted_by_len_desc_def subst_symbol_def py_replace_def)
  have 9: "apply_symbolics [(''ABC'', ''9''), (''A'', ''1'')] ''&ABC.X'' = ''9X''"
    by (simp add: apply_symbolics_def sorted_by_len_desc_def subst_symbol_def py_replace_def)
  from 1 2 3 4 5 6 7 8 9 show ?thesis by blast
qed

text \<open>
  C9.  On a statement without unresolved references (no \<open>&NAME\<close> for a name of the
  table occurs in it) substitution changes nothing; so when the statement, or the
  result of substituting it once, has no such reference, substituting a second time
  returns the result of the first.
\<close>

theorem apply_symbolics_idempotent:
  assumes "no_symbolic_refs tbl stmt \<or> no_symbolic_refs tbl (apply_symbolics tbl stmt)"
  shows "apply_symbolics tbl (apply_symbolics tbl stmt) = apply_symbolics tbl stmt"
  using assms by (auto simp: apply_symbolics_no_refs)

theorem apply_symbolics_idempotent_witness:
  "no_symbolic_refs [(''A'', ''1''), (''ABC'', ''9'')]
     (apply_symbolics [(''A'', ''1''), (''ABC'', ''9'')] ''&ABC &A'')
   \<and> apply_symbolics [(''A'', ''1''), (''ABC'', ''9'')] ''&ABC &A'' = ''9 1''
   \<and> apply_symbolics [(''A'', ''1''), (''ABC'', ''9'')]
       (apply_symbolics [(''A'', ''1''), (''ABC'', ''9'')] ''&ABC &A'') = ''9 1''"
proof -
  have e: "apply_symbolics [(''A'', ''1''), (''ABC'', ''9'')] ''&ABC &A'' = ''9 1''"
    by (simp add: apply_symbolics_def sorted_by_len_desc_def subst_symbol_def py_replace_def)
  have n: "no_symbolic_refs [(''A'', ''1''), (''ABC'', ''9'')]
     (apply_symbolics [(''A'', ''1''), (''ABC'', ''9'')] ''&ABC &A'')"
    by (simp add: e no_symbolic_refs_def)
  from apply_symbolics_idempotent [of "[(''A'', ''1''), (''ABC'', ''9'')]" "''&ABC &A''"] n e
  show ?thesis by simp
qed

section \<open>Comment stripping\<close>

lemma scan_end_idx_le: "scan_end_idx q s \<le> length s"
  by (induction s arbitrary: q) auto

lemma scan_end_idx_stop:
  "scan_end_idx q s < length s \<Longrightarrow>
     s ! scan_end_idx q s = CHR '' '' \<and> (even (quotes_before s (scan_end_idx q s)) \<longleftrightarrow> \<not> q)"
  by (induction s arbitrary: q) (auto simp: quotes_before_def split: if_splits)

lemma scan_end_idx_least:
  "i < scan_end_idx q s \<Longrightarrow> \<not> (s ! i = CHR '' '' \<and> (even (quotes_before s i) \<longleftrightarrow> \<not> q))"
proof (induction s arbitrary: q i)
  case Nil
  then show ?case by simp
next
  case (Cons c cs)
  show ?case
  proof (cases i)
    case 0
    with Cons.prems show ?thesis by (auto simp: quotes_before_def split: if_splits)
  next
    case (Suc k)
    show ?thesis
    proof (cases "c = CHR 0x27")
      case True
      with Cons.prems Suc have "k < scan_end_idx (\<not> q) cs" by simp
      from Cons.IH [OF this] True Suc show ?thesis by (auto simp: quotes_before_def)
    next
      case False
      with Cons.prems Suc have "k < scan_end_idx q cs" by (simp split: if_splits)
      from Cons.IH [OF this] False Suc show ?thesis by (auto simp: quotes_before_def)
    qed
  qed
qed

lemma scan_end_idx_first_unquoted_space: "first_unquoted_space s (scan_end_idx False s)"
  using scan_end_idx_stop [of False s] scan_end_idx_least [of _ False s] scan_end_idx_le [of False s]
  by (auto simp: first_unquoted_space_def)


lemma py_split_ws_token:
  "x \<in> set (py_split_ws n s) \<Longrightarrow> x \<noteq> [] \<and> \<not> py_isspace (hd x)"
proof (induction n arbitrary: s)
  case 0
  then show ?case
    by (auto simp: Let_def hd_dropWhile split: if_splits)
next
  case (Suc n)
  let ?r = "dropWhile py_isspace s"
  from Suc.prems have r: "?r \<noteq> []" by (auto simp: Let_def split: if_splits)
  then have h: "\<not> py_isspace (hd ?r)" by (rule hd_dropWhile)
  from r h have t: "takeWhile (\<lambda>c. \<not> py_isspace c) ?r \<noteq> []
      \<and> hd (takeWhile (\<lambda>c. \<not> py_isspace c) ?r) = hd ?r"
    by (cases ?r) auto
  from r have "py_split_ws (Suc n) s = takeWhile (\<lambda>c. \<not> py_isspace c) ?r
      # py_split_ws n (dropWhile (\<lambda>c. \<not> py_isspace c) ?r)"
    by (simp add: Let_def)
  with Suc.prems have "x = takeWhile (\<lambda>c. \<not> py_isspace c) ?r
      \<or> x \<in> set (py_split_ws n (dropWhile (\<lambda>c. \<not> py_isspace c) ?r))"
    by auto
  then show ?case
  proof
    assume "x = takeWhile (\<lambda>c. \<not> py_isspace c) ?r"
    with t h show ?thesis by simp
  next
    assume "x \<in> set (py_split_ws n (dropWhile (\<lambda>c. \<not> py_isspace c) ?r))"
    then show ?thesis by (rule Suc.IH)
  qed
qed

lemma py_lstrip_id: "a \<noteq> [] \<Longrightarrow> \<not> py_isspace (hd a) \<Longrightarrow> py_lstrip (a @ x) = a @ x"
  by (cases a) (auto simp: py_lstrip_def)

lemma py_rstrip_nonempty: "t \<noteq> [] \<Longrightarrow> \<not> py_isspace (hd t) \<Longrightarrow> py_rstrip t \<noteq> []"
proof -
  assume "t \<noteq> []" "\<not> py_isspace (hd t)"
  then have "\<exists>c \<in> set (rev t). \<not> py_isspace c" by (cases t) auto
  then have "dropWhile py_isspace (rev t) \<noteq> []" by (simp add: dropWhile_eq_Nil_conv)
  then show ?thesis by (simp add: py_rstrip_def)
qed

lemma py_rstrip_append: "py_rstrip t \<noteq> [] \<Longrightarrow> py_rstrip (x @ t) = x @ py_rstrip t"
proof -
  assume "py_rstrip t \<noteq> []"
  then have "\<not> (\<forall>c \<in> set (rev t). py_isspace c)"
    by (simp add: py_rstrip_def dropWhile_eq_Nil_conv)
  then have "dropWhile py_isspace (rev t @ rev x) = dropWhile py_isspace (rev t) @ rev x"
    by (auto simp: dropWhile_append)
  then show ?thesis by (simp add: py_rstrip_def)
qed

lemma scan_end_idx_pos: "s \<noteq> [] \<Longrightarrow> \<not> py_isspace (hd s) \<Longrightarrow> 0 < scan_end_idx False s"
  by (cases s) (auto simp: py_isspace_def)

text \<open>
  C5.  For a card that is not a continuation and has an operand field (the third piece
  of \<open>split(None, 2)\<close>), \<open>strip_jcl_comment\<close> returns the first two pieces and the
  operand field cut at the first blank outside single quotes, every quote toggling the
  state (trailing whitespace of the kept part is stripped).  On the card
  \<open>//L OP a='b c' comment\<close> the operands kept are \<open>a='b c'\<close>.
\<close>

theorem strip_jcl_comment_first_unquoted_space:
  assumes "py_split_ws 2 line = [name, op, field]"
  shows "first_unquoted_space field (scan_end_idx False field)
     \<and> strip_jcl_comment line False =
         name @ '' '' @ op @ '' '' @ py_rstrip (take (scan_end_idx False field) field)"
proof -
  let ?n = "scan_end_idx False field"
  have tok: "\<And>x. x \<in> set [name, op, field] \<Longrightarrow> x \<noteq> [] \<and> \<not> py_isspace (hd x)"
    using py_split_ws_token [of _ 2 line] assms by simp
  have l: "name \<noteq> []" "\<not> py_isspace (hd name)" using tok [of name] by simp_all
  have f: "field \<noteq> []" "\<not> py_isspace (hd field)" using tok [of field] by simp_all
  have pos: "0 < ?n" using f by (rule scan_end_idx_pos)
  have tk: "take ?n field \<noteq> []" "hd (take ?n field) = hd field"
    using pos f by (cases field; cases ?n; simp)+
  have r: "py_rstrip (take ?n field) \<noteq> []"
    using tk f by (intro py_rstrip_nonempty) simp_all
  have "strip_jcl_comment line False = py_strip (name @ '' '' @ op @ '' '' @ take ?n field)"
    using assms l by (simp add: strip_jcl_comment_def py_join_def Let_def)
  also have "\<dots> = py_rstrip ((name @ '' '' @ op @ '' '') @ take ?n field)"
    using py_lstrip_id [OF l, of "'' '' @ op @ '' '' @ take ?n field"]
    by (simp add: py_strip_def)
  also have "\<dots> = (name @ '' '' @ op @ '' '') @ py_rstrip (take ?n field)"
    using r by (rule py_rstrip_append)
  finally show ?thesis
    using scan_end_idx_first_unquoted_space [of field] by simp
qed

theorem strip_jcl_comment_first_unquoted_space_witness:
  "py_split_ws 2 (''//L OP a='' @ [CHR 0x27] @ ''b c'' @ [CHR 0x27] @ '' comment'')
     = [''//L'', ''OP'', ''a='' @ [CHR 0x27] @ ''b c'' @ [CHR 0x27] @ '' comment'']
   \<and> scan_end_idx False (''a='' @ [CHR 0x27] @ ''b c'' @ [CHR 0x27] @ '' comment'') = 7
   \<and> strip_jcl_comment (''//L OP a='' @ [CHR 0x27] @ ''b c'' @ [CHR 0x27] @ '' comment'') False
       = ''//L OP a='' @ [CHR 0x27] @ ''b c'' @ [CHR 0x27]"
proof -
  have s: "py_split_ws 2 (''//L OP a='' @ [CHR 0x27] @ ''b c'' @ [CHR 0x27] @ '' comment'')
     = [''//L'', ''OP'', ''a='' @ [CHR 0x27] @ ''b c'' @ [CHR 0x27] @ '' comment'']"
    by (simp add: numeral_2_eq_2 py_isspace_def)
  have n: "scan_end_idx False (''a='' @ [CHR 0x27] @ ''b c'' @ [CHR 0x27] @ '' comment'') = 7"
    by simp
  from strip_jcl_comment_first_unquoted_space [OF s] s n show ?thesis
    by (simp add: py_rstrip_def py_isspace_def)
qed

section \<open>Persisted DD rows\<close>

lemma make_dd_row_fields:
  "make_dd_row project_id step_id ds_id name offset dd = Inr row \<Longrightarrow>
     dr_dd_name row = name \<and> dr_allocation_offset row = offset
     \<and> dr_ds_id row = ds_id \<and> dr_dsn row = dd_dsn (dd_params dd)"
  by (auto simp: make_dd_row_def Let_def split: sum.splits)

lemma dd_loop_rows:
  "dd_loop project_id step_id nm off k ds = Inr rows \<Longrightarrow>
     length rows = length ds
     \<and> (\<forall>i<length ds.
           dr_dsn (rows ! i) = dd_dsn (dd_params (ds ! i))
           \<and> (is_labeled (ds ! i) \<longrightarrow>
                dr_dd_name (rows ! i) = dd_label (ds ! i) \<and> dr_allocation_offset (rows ! i) = 1)
           \<and> (\<not> is_labeled (ds ! i) \<longrightarrow>
                dr_dd_name (rows ! i) = (if i = 0 then nm else dr_dd_name (rows ! (i - 1)))
                \<and> dr_allocation_offset (rows ! i)
                    = (if i = 0 then off else dr_allocation_offset (rows ! (i - 1))) + 1))"
proof (induction ds arbitrary: nm off k rows)
  case Nil
  then show ?case by simp
next
  case (Cons dd rest)
  let ?name = "if is_labeled dd then dd_label dd else nm"
  let ?offset = "if is_labeled dd then 1 else off + 1"
  from Cons.prems obtain row rows' where
    row: "make_dd_row project_id step_id (k + 1) ?name ?offset dd = Inr row" and
    rows': "dd_loop project_id step_id ?name ?offset (k + 1) rest = Inr rows'" and
    rows: "rows = row # rows'"
    by (auto simp: Let_def split: sum.splits)
  note f = make_dd_row_fields [OF row]
  note IH = Cons.IH [OF rows']
  show ?case
  proof (intro conjI allI impI)
    show "length rows = length (dd # rest)" using IH rows by simp
  next
    fix i assume i: "i < length (dd # rest)"
    show "dr_dsn (rows ! i) = dd_dsn (dd_params ((dd # rest) ! i))"
      using i f IH rows by (cases i) auto
  next
    fix i assume i: "i < length (dd # rest)" and l: "is_labeled ((dd # rest) ! i)"
    show "dr_dd_name (rows ! i) = dd_label ((dd # rest) ! i)"
      using i l f IH rows by (cases i) auto
    show "dr_allocation_offset (rows ! i) = 1"
      using i l f IH rows by (cases i) auto
  next
    fix i assume i: "i < length (dd # rest)" and l: "\<not> is_labeled ((dd # rest) ! i)"
    show "dr_dd_name (rows ! i) = (if i = 0 then nm else dr_dd_name (rows ! (i - 1)))"
    proof (cases i)
      case 0
      with l f rows show ?thesis by simp
    next
      case (Suc j)
      with i l IH have "dr_dd_name (rows' ! j) = (if j = 0 then ?name else dr_dd_name (rows' ! (j - 1)))"
        by simp
      with Suc f rows show ?thesis by (cases j) auto
    qed
    show "dr_allocation_offset (rows ! i)
            = (if i = 0 then off else dr_allocation_offset (rows ! (i - 1))) + 1"
    proof (cases i)
      case 0
      with l f rows show ?thesis by simp
    next
      case (Suc j)
      with i l IH have "dr_allocation_offset (rows' ! j)
            = (if j = 0 then ?offset else dr_allocation_offset (rows' ! (j - 1))) + 1"
        by simp
      with Suc f rows show ?thesis by (cases j) auto
    qed
  qed
qed

text \<open>
  The rows of every step are part of what \<open>insert_project_data\<close> executes: the step at
  position \<open>k\<close> gets the step id \<open>max_step_id + k + 1\<close>, and its DD rows stand in the
  list of inserts.
\<close>

lemma step_loop_rows:
  "step_loop project_id sid rel structured = Inr inserts \<Longrightarrow> k < length structured \<Longrightarrow>
     \<exists>rows. step_dd_rows project_id (sid + int k + 1) (dds (structured ! k)) = Inr rows
            \<and> set (map InsertDD rows) \<subseteq> set inserts"
proof (induction structured arbitrary: sid rel inserts k)
  case Nil
  then show ?case by simp
next
  case (Cons s rest)
  from Cons.prems(1) obtain rows later where
    r: "step_dd_rows project_id (sid + 1) (dds s) = Inr rows" and
    m: "step_loop project_id (sid + 1) (Suc rel) rest = Inr later" and
    i: "inserts = InsertStep (make_step_row project_id (sid + 1) (Suc rel) (step_info s))
                    # map InsertDD rows @ later"
    by (auto simp: Let_def split: sum.splits)
  show ?case
  proof (cases k)
    case 0
    with r i show ?thesis by auto
  next
    case (Suc j)
    with Cons.prems(2) have "j < length rest" by simp
    from Cons.IH [OF m this] obtain rows' where
      "step_dd_rows project_id (sid + 1 + int j + 1) (dds (rest ! j)) = Inr rows'"
      "set (map InsertDD rows') \<subseteq> set later"
      by blast
    with Suc i show ?thesis by (auto simp: algebra_simps)
  qed
qed

text \<open>
  C6.  In the rows written for the DD list of a step, a labeled DD has its own label
  as \<open>dd_name\<close> and \<open>allocation_offset\<close> 1, and an unlabeled DD that follows another
  DD has the \<open>dd_name\<close> of the row before it and an \<open>allocation_offset\<close> one greater;
  so a labeled DD followed by two unlabeled ones gives three rows with its label and
  the offsets 1, 2, 3.
\<close>

theorem dd_concatenation_offsets:
  assumes "step_dd_rows project_id step_id ds = Inr rows"
  shows "length rows = length ds
     \<and> (\<forall>i<length ds.
          (is_labeled (ds ! i) \<longrightarrow>
             dr_dd_name (rows ! i) = dd_label (ds ! i) \<and> dr_allocation_offset (rows ! i) = 1)
          \<and> (\<not> is_labeled (ds ! i) \<and> 0 < i \<longrightarrow>
               dr_dd_name (rows ! i) = dr_dd_name (rows ! (i - 1))
               \<and> dr_allocation_offset (rows ! i) = dr_allocation_offset (rows ! (i - 1)) + 1)
          \<and> (is_labeled (ds ! i) \<and> i + 2 < length ds
               \<and> \<not> is_labeled (ds ! (i + 1)) \<and> \<not> is_labeled (ds ! (i + 2)) \<longrightarrow>
               map (\<lambda>r. (dr_dd_name r, dr_allocation_offset r)) [rows ! i, rows ! (i + 1), rows ! (i + 2)]
                 = [(dd_label (ds ! i), 1), (dd_label (ds ! i), 2), (dd_label (ds ! i), 3)]))"
proof -
  note R = dd_loop_rows [OF assms [unfolded step_dd_rows_def]]
  have len: "length rows = length ds" using R by simp
  have lab: "dr_dd_name (rows ! i) = dd_label (ds ! i) \<and> dr_allocation_offset (rows ! i) = 1"
    if "i < length ds" "is_labeled (ds ! i)" for i
    using R that by simp
  have unl: "dr_dd_name (rows ! i) = dr_dd_name (rows ! (i - 1))
      \<and> dr_allocation_offset (rows ! i) = dr_allocation_offset (rows ! (i - 1)) + 1"
    if "i < length ds" "\<not> is_labeled (ds ! i)" "0 < i" for i
    using R that by simp
  have three: "map (\<lambda>r. (dr_dd_name r, dr_allocation_offset r)) [rows ! i, rows ! (i + 1), rows ! (i + 2)]
                 = [(dd_label (ds ! i), 1), (dd_label (ds ! i), 2), (dd_label (ds ! i), 3)]"
    if "is_labeled (ds ! i)" "i + 2 < length ds"
       "\<not> is_labeled (ds ! (i + 1))" "\<not> is_labeled (ds ! (i + 2))" for i
  proof -
    have a: "dr_dd_name (rows ! i) = dd_label (ds ! i) \<and> dr_allocation_offset (rows ! i) = 1"
      using lab [of i] that by simp
    have b: "dr_dd_name (rows ! (i + 1)) = dr_dd_name (rows ! i)
      \<and> dr_allocation_offset (rows ! (i + 1)) = dr_allocation_offset (rows ! i) + 1"
      using unl [of "i + 1"] that by simp
    have c: "dr_dd_name (rows ! (i + 2)) = dr_dd_name (rows ! (i + 1))
      \<and> dr_allocation_offset (rows ! (i + 2)) = dr_allocation_offset (rows ! (i + 1)) + 1"
      using unl [of "i + 2"] that by (simp add: numeral_2_eq_2)
    from a b c show ?thesis by simp
  qed
  from len lab unl three show ?thesis by blast
qed

theorem dd_concatenation_offsets_witness:
  "step_dd_rows 1 1
     [\<lparr>dd_label = Some ''INPUT'', dd_params = [(''DSN'', PStr ''A'')], dd_payload = None\<rparr>,
      \<lparr>dd_label = None, dd_params = [(''DSN'', PStr ''B'')], dd_payload = None\<rparr>,
      \<lparr>dd_label = None, dd_params = [(''DSN'', PStr ''C'')], dd_payload = None\<rparr>]
   = Inr
     [\<lparr>dr_project_id = 1, dr_step_id = 1, dr_ds_id = 1, dr_dd_name = Some ''INPUT'',
       dr_allocation_offset = 1, dr_dsn = PStr ''A'', dr_disp_status = PNone,
       dr_disp_normal_term = PNone, dr_disp_abnormal_term = PNone, dr_unit = PNone,
       dr_vol_ser = PNone, dr_is_dummy = False, dr_instream_ref = [], dr_lrecl = PNone,
       dr_blksize = PNone, dr_recfm = PNone, dr_dcb_attributes = []\<rparr>,
      \<lparr>dr_project_id = 1, dr_step_id = 1, dr_ds_id = 2, dr_dd_name = Some ''INPUT'',
       dr_allocation_offset = 2, dr_dsn = PStr ''B'', dr_disp_status = PNone,
       dr_disp_normal_term = PNone, dr_disp_abnormal_term = PNone, dr_unit = PNone,
       dr_vol_ser = PNone, dr_is_dummy = False, dr_instream_ref = [], dr_lrecl = PNone,
       dr_blksize = PNone, dr_recfm = PNone, dr_dcb_attributes = []\<rparr>,
      \<lparr>dr_project_id = 1, dr_step_id = 1, dr_ds_id = 3, dr_dd_name = Some ''INPUT'',
       dr_allocation_offset = 3, dr_dsn = PStr ''C'', dr_disp_status = PNone,
       dr_disp_normal_term = PNone, dr_disp_abnormal_term = PNone, dr_unit = PNone,
       dr_vol_ser = PNone, dr_is_dummy = False, dr_instream_ref = [], dr_lrecl = PNone,
       dr_blksize = PNone, dr_recfm = PNone, dr_dcb_attributes = []\<rparr>]"
proof -
  let ?ds = "[\<lparr>dd_label = Some ''INPUT'', dd_params = [(''DSN'', PStr ''A'')], dd_payload = None\<rparr>,
      \<lparr>dd_label = None, dd_params = [(''DSN'', PStr ''B'')], dd_payload = None\<rparr>,
      \<lparr>dd_label = None, dd_params = [(''DSN'', PStr ''C'')], dd_payload = None\<rparr>]"
  obtain rows where rows: "step_dd_rows 1 1 ?ds = Inr rows"
    by (simp add: step_dd_rows_def make_dd_row_def disp_items_def is_labeled_def Let_def)
  from dd_concatenation_offsets [OF rows] rows show ?thesis
    by (simp add: step_dd_rows_def make_dd_row_def disp_items_def is_labeled_def Let_def
        dd_dsn_def dict_get_def dict_has_def item_or_none_def py_join_def)
qed

text \<open>
  C7 as stated fails: a \<open>DUMMY\<close> DD that also names a data set is written with the
  surrogate, not with its DSN.
\<close>

theorem dsn_present_but_surrogate_counterexample:
  "dict_get [(''DUMMY'', PBool True), (''DSN'', PStr ''A.B'')] ''DSN'' = PStr ''A.B''
   \<and> map_sum id (map dr_dsn)
       (step_dd_rows 1 1
          [\<lparr>dd_label = Some ''X'', dd_params = [(''DUMMY'', PBool True), (''DSN'', PStr ''A.B'')],
            dd_payload = None\<rparr>])
     = Inr [PStr ''(dummy)'']"
  by (simp add: step_dd_rows_def make_dd_row_def disp_items_def is_labeled_def Let_def
        dd_dsn_def dict_get_def dict_has_def)

text \<open>
  C7, amended.  The \<open>dsn\<close> column of every row is \<open>(dummy)\<close> for a DUMMY DD, else
  \<open>(input stream)\<close> for an in-stream DD, else \<open>(output stream)\<close> for a DD with a
  \<open>SYSOUT\<close> parameter, else the DSN parameter when there is a non-empty one, else
  \<open>(work_ds)\<close>.
\<close>

theorem dsn_surrogate_precedence:
  assumes "step_dd_rows project_id step_id ds = Inr rows" and "i < length ds"
  shows "dr_dsn (rows ! i) =
     (if truthy (dict_get (dd_params (ds ! i)) ''DUMMY'') then PStr ''(dummy)''
      else if truthy (dict_get (dd_params (ds ! i)) ''INSTREAM'') then PStr ''(input stream)''
      else if dict_has (dd_params (ds ! i)) ''SYSOUT'' then PStr ''(output stream)''
      else if truthy (dict_get (dd_params (ds ! i)) ''DSN'') then dict_get (dd_params (ds ! i)) ''DSN''
      else PStr ''(work_ds)'')"
  using dd_loop_rows [OF assms(1) [unfolded step_dd_rows_def]] assms(2)
  by (simp add: dd_dsn_def Let_def)

theorem dsn_surrogate_precedence_witness:
  "map_sum id (map dr_dsn)
     (step_dd_rows 1 1
        [\<lparr>dd_label = Some ''A'', dd_params = [(''DSN'', PStr ''A.B'')], dd_payload = None\<rparr>,
         \<lparr>dd_label = Some ''B'', dd_params = [(''INSTREAM'', PStr ''*'')], dd_payload = None\<rparr>,
         \<lparr>dd_label = Some ''C'', dd_params = [(''SYSOUT'', PStr ''*'')], dd_payload = None\<rparr>,
         \<lparr>dd_label = Some ''D'', dd_params = [(''UNIT'', PStr ''SYSDA'')], dd_payload = None\<rparr>])
   = Inr [PStr ''A.B'', PStr ''(input stream)'', PStr ''(output stream)'', PStr ''(work_ds)'']"
proof -
  let ?ds = "[\<lparr>dd_label = Some ''A'', dd_params = [(''DSN'', PStr ''A.B'')], dd_payload = None\<rparr>,
         \<lparr>dd_label = Some ''B'', dd_params = [(''INSTREAM'', PStr ''*'')], dd_payload = None\<rparr>,
         \<lparr>dd_label = Some ''C'', dd_params = [(''SYSOUT'', PStr ''*'')], dd_payload = None\<rparr>,
         \<lparr>dd_label = Some ''D'', dd_params = [(''UNIT'', PStr ''SYSDA'')], dd_payload = None\<rparr>]"
  obtain rows where rows: "step_dd_rows 1 1 ?ds = Inr rows"
    by (simp add: step_dd_rows_def make_dd_row_def disp_items_def is_labeled_def Let_def)
  from dsn_surrogate_precedence [OF rows, of 0] dsn_surrogate_precedence [OF rows, of 1]
       dsn_surrogate_precedence [OF rows, of 2] dsn_surrogate_precedence [OF rows, of 3] rows
  show ?thesis
    by (auto simp: step_dd_rows_def make_dd_row_def disp_items_def is_labeled_def Let_def
        dd_dsn_def dict_get_def dict_has_def)
qed

end
